theory Spec2Isabelle
  imports Complex_Main
begin

section \<open>Values exchanged with the Ethfinex Trustless API\<close>

text \<open>
  The module \<^verbatim>\<open>pyexchange/tethfinex.py\<close> is a thin client: it reads JSON values from
  the HTTP layer, converts them into \<^verbatim>\<open>Order\<close> and \<^verbatim>\<open>Trade\<close> objects and builds the
  payloads of the write operations. Exceptions are values of the type \<open>error\<close>; a
  computation that may raise has the type \<open>error + 'a\<close>, with \<open>Inl\<close> for the exception.
\<close>

datatype error =
    KeyError
  | TypeError
  | IndexError
  | ValueError
  | ArithmeticError
  | AssertionError
  | TransportError
  | PyException string

text \<open>
  A parsed JSON value as Python's \<^verbatim>\<open>json\<close> module delivers it: integers and floats are
  different Python types (\<^verbatim>\<open>isinstance(5.0, int)\<close> is false). A float is represented by
  the finite decimal number that \<^verbatim>\<open>str\<close> prints for it; \<^verbatim>\<open>NaN\<close> and the infinities are
  not represented. The float itself is a binary fraction, in general another number than
  its printed decimal (\<^verbatim>\<open>1e23\<close> is the float 99999999999999991611392): where Python
  computes with the float and not with its text, the model takes its exact value from the
  parameter \<open>float_value\<close> below. An object is the list of its items.
\<close>

datatype json =
    JNull
  | JBool bool
  | JInt int
  | JFloat rat
  | JStr string
  | JArr "json list"
  | JObj "(string \<times> json) list"

definition and_then :: "error + 'a \<Rightarrow> ('a \<Rightarrow> error + 'b) \<Rightarrow> error + 'b" where
  "and_then m f = (case m of Inl e \<Rightarrow> Inl e | Inr v \<Rightarrow> f v)"

text \<open>\<^verbatim>\<open>d[key]\<close> for a string key: only a dict has string keys.\<close>

fun getitem :: "json \<Rightarrow> string \<Rightarrow> error + json" where
  "getitem (JObj kvs) k = (case map_of kvs k of None \<Rightarrow> Inl KeyError | Some v \<Rightarrow> Inr v)"
| "getitem _ k = Inl TypeError"

text \<open>\<^verbatim>\<open>r[0]\<close>: the first element of a list, the first character of a string, the value
  stored under the key \<^verbatim>\<open>0\<close> of a dict (a dict parsed from JSON has string keys only).\<close>

fun getitem0 :: "json \<Rightarrow> error + json" where
  "getitem0 (JArr []) = Inl IndexError"
| "getitem0 (JArr (x # xs)) = Inr x"
| "getitem0 (JStr []) = Inl IndexError"
| "getitem0 (JStr (c # cs)) = Inr (JStr [c])"
| "getitem0 (JObj kvs) = Inl KeyError"
| "getitem0 _ = Inl TypeError"

section \<open>The fixed-point type Wad\<close>

text \<open>
  Modelled from the spec: the class \<^verbatim>\<open>Wad\<close> of the library \<^verbatim>\<open>pymaker\<close>, which this
  module imports and which is no part of the repository. The specification calls it an
  arbitrary-precision decimal-as-integer type whose division by zero is an arithmetic
  error. A \<^verbatim>\<open>Wad\<close> holds the integer \<^verbatim>\<open>value\<close>, the number of units of \<open>10\<^sup>-\<^sup>1\<^sup>8\<close>;
  products and quotients are rounded towards zero to a whole number of units, as the
  library's \<^verbatim>\<open>ROUND_DOWN\<close> does.
\<close>

datatype wad = Wad (wad_value: int)

definition WAD :: int where
  "WAD = 10 ^ 18"

text \<open>Modelled from the spec: the rounding of \<^verbatim>\<open>Wad\<close>, a quotient of integers cut towards
  zero, and the same for a rational number.\<close>

definition tdiv :: "int \<Rightarrow> int \<Rightarrow> int" where
  "tdiv x y = sgn x * sgn y * (\<bar>x\<bar> div \<bar>y\<bar>)"

definition trunc_rat :: "rat \<Rightarrow> int" where
  "trunc_rat q = (if 0 \<le> q then \<lfloor>q\<rfloor> else \<lceil>q\<rceil>)"

text \<open>Modelled from the spec: \<^verbatim>\<open>Wad.__mul__\<close>, \<^verbatim>\<open>Wad.__truediv__\<close> (whose division by zero
  is the arithmetic error of the specification), \<^verbatim>\<open>Wad.__abs__\<close> and the comparison
  \<^verbatim>\<open>>\<close> of two \<^verbatim>\<open>Wad\<close>.\<close>

definition wad_mul :: "wad \<Rightarrow> wad \<Rightarrow> wad" where
  "wad_mul a b = Wad (tdiv (wad_value a * wad_value b) WAD)"

definition wad_div :: "wad \<Rightarrow> wad \<Rightarrow> error + wad" where
  "wad_div a b =
     (if wad_value b = 0 then Inl ArithmeticError
      else Inr (Wad (tdiv (wad_value a * WAD) (wad_value b))))"

definition wad_abs :: "wad \<Rightarrow> wad" where
  "wad_abs a = Wad \<bar>wad_value a\<bar>"

definition wad_gt :: "wad \<Rightarrow> wad \<Rightarrow> bool" where
  "wad_gt a b = (wad_value a > wad_value b)"

text \<open>
  Modelled from the spec: \<^verbatim>\<open>Wad.from_number\<close>, of the same library.
  \<^verbatim>\<open>Wad.from_number(number)\<close> is \<^verbatim>\<open>Decimal(str(number)) * 10**18\<close> cut to an integer. The
  text of a number is a decimal; the text of \<^verbatim>\<open>True\<close>, \<^verbatim>\<open>None\<close>, a list or a dict is
  none, and \<^verbatim>\<open>Decimal\<close> raises (an \<^verbatim>\<open>ArithmeticError\<close>). For a string the reading of
  \<^verbatim>\<open>Decimal\<close> is the parameter \<open>decimal_of_str\<close>.
\<close>

fun from_number :: "(string \<Rightarrow> rat option) \<Rightarrow> json \<Rightarrow> error + wad" where
  "from_number dec (JInt n) = Inr (Wad (n * WAD))"
| "from_number dec (JFloat q) = Inr (Wad (trunc_rat (q * of_int WAD)))"
| "from_number dec (JStr s) =
     (case dec s of None \<Rightarrow> Inl ArithmeticError
      | Some q \<Rightarrow> Inr (Wad (trunc_rat (q * of_int WAD))))"
| "from_number dec _ = Inl ArithmeticError"

section \<open>Orders\<close>

text \<open>
  The functions of other libraries that the conversions call:
  \<^item> \<open>decimal_of_str\<close>: the number \<^verbatim>\<open>Decimal(s)\<close> reads from a string, if any;
  \<^item> \<open>int_of_str\<close>: the integer \<^verbatim>\<open>int(s)\<close> reads from a string, if any;
  \<^item> \<open>float_value\<close>: the exact value of the float that \<^verbatim>\<open>str\<close> prints as the given
    decimal, the number that \<^verbatim>\<open>int(x)\<close> cuts and that \<^verbatim>\<open>x == n\<close> compares;
  \<^item> \<open>parse_timestamp\<close>: \<^verbatim>\<open>int(dateutil.parser.parse(s).timestamp())\<close>, the whole unix
    seconds of the date a string denotes, or the exception of the parser.
\<close>

record conv =
  decimal_of_str :: "string \<Rightarrow> rat option"
  int_of_str :: "string \<Rightarrow> int option"
  float_value :: "rat \<Rightarrow> rat"
  parse_timestamp :: "string \<Rightarrow> error + int"

record order =
  order_id :: int
  pair :: string
  is_sell :: bool
  price :: wad
  amount :: wad

text \<open>\<^verbatim>\<open>Order.__init__\<close>: the assertions on the types of the arguments. The pair, the side
  and the two amounts have their types already; the identifier comes from the raw record.
  \<^verbatim>\<open>bool\<close> is a subclass of \<^verbatim>\<open>int\<close>, with \<^verbatim>\<open>True == 1\<close>.\<close>

fun Order_init :: "json \<Rightarrow> string \<Rightarrow> bool \<Rightarrow> wad \<Rightarrow> wad \<Rightarrow> error + order" where
  "Order_init (JInt n) pr sell p a =
     Inr \<lparr>order_id = n, pair = pr, is_sell = sell, price = p, amount = a\<rparr>"
| "Order_init (JBool b) pr sell p a =
     Inr \<lparr>order_id = (if b then 1 else 0), pair = pr, is_sell = sell, price = p, amount = a\<rparr>"
| "Order_init _ pr sell p a = Inl AssertionError"

definition to_order :: "conv \<Rightarrow> string \<Rightarrow> json \<Rightarrow> error + order" where
  "to_order cv pr ord =
     and_then (getitem ord ''amount'') (\<lambda>a_raw.
     and_then (from_number (decimal_of_str cv) a_raw) (\<lambda>a.
       let sell = wad_gt a (Wad 0); amt = wad_abs a in
     and_then (getitem ord ''id'') (\<lambda>oid.
     and_then (getitem ord ''price'') (\<lambda>p_raw.
     and_then (from_number (decimal_of_str cv) p_raw) (\<lambda>p.
     and_then (wad_div amt (wad_mul amt p)) (\<lambda>q.
       Order_init oid pr sell q (wad_mul amt p)))))))"

definition remaining_buy_amount :: "order \<Rightarrow> wad" where
  "remaining_buy_amount ord = (if is_sell ord then wad_mul (amount ord) (price ord) else amount ord)"

definition remaining_sell_amount :: "order \<Rightarrow> wad" where
  "remaining_sell_amount ord = (if is_sell ord then amount ord else wad_mul (amount ord) (price ord))"

section \<open>Trades\<close>

text \<open>The fields of \<^verbatim>\<open>Trade\<close>; the four names shared with \<^verbatim>\<open>Order\<close> carry the
  prefix \<open>trade_\<close>, since a field name is a constant of the theory.\<close>

record trade =
  trade_id :: int
  timestamp :: int
  trade_is_sell :: bool
  trade_pair :: string
  trade_price :: wad
  trade_amount :: wad

text \<open>\<^verbatim>\<open>int(x)\<close> on a parsed JSON value: a float is cut towards zero at its exact value
  \<open>fv q\<close>; the reading of a string is the parameter \<open>ios\<close>.\<close>

fun py_int :: "(rat \<Rightarrow> rat) \<Rightarrow> (string \<Rightarrow> int option) \<Rightarrow> json \<Rightarrow> error + int" where
  "py_int fv ios (JInt n) = Inr n"
| "py_int fv ios (JBool b) = Inr (if b then 1 else 0)"
| "py_int fv ios (JFloat q) = Inr (trunc_rat (fv q))"
| "py_int fv ios (JStr s) = (case ios s of None \<Rightarrow> Inl ValueError | Some n \<Rightarrow> Inr n)"
| "py_int fv ios _ = Inl TypeError"

text \<open>\<^verbatim>\<open>x + 'Z'\<close>: only a string can be extended by a string.\<close>

fun plus_Z :: "json \<Rightarrow> error + string" where
  "plus_Z (JStr s) = Inr (s @ ''Z'')"
| "plus_Z _ = Inl TypeError"

text \<open>\<^verbatim>\<open>Trade.__init__\<close>: of its assertions only the one on the pair can fail here, the
  other arguments have their types. \<^verbatim>\<open>trade_id\<close> is an integer, so
  \<^verbatim>\<open>isinstance(pair, str) or (trade_id is None)\<close> holds for a string only.\<close>

fun Trade_init :: "int \<Rightarrow> int \<Rightarrow> bool \<Rightarrow> json \<Rightarrow> wad \<Rightarrow> wad \<Rightarrow> error + trade" where
  "Trade_init tid ts sell (JStr pr) p a =
     Inr \<lparr>trade_id = tid, timestamp = ts, trade_is_sell = sell, trade_pair = pr,
          trade_price = p, trade_amount = a\<rparr>"
| "Trade_init tid ts sell _ p a = Inl AssertionError"

definition to_trade :: "conv \<Rightarrow> json \<Rightarrow> error + trade" where
  "to_trade cv tr =
     and_then (getitem tr ''amount_orig'') (\<lambda>ao_raw.
     and_then (from_number (decimal_of_str cv) ao_raw) (\<lambda>amount_orig.
     and_then (getitem tr ''price'') (\<lambda>p_raw.
     and_then (from_number (decimal_of_str cv) p_raw) (\<lambda>p.
       let total = wad_mul p amount_orig in
     and_then (getitem tr ''id'') (\<lambda>id_raw.
     and_then (py_int (float_value cv) (int_of_str cv) id_raw) (\<lambda>tid.
     and_then (getitem tr ''updated_at'') (\<lambda>upd.
     and_then (plus_Z upd) (\<lambda>text.
     and_then (parse_timestamp cv text) (\<lambda>ts.
     and_then (getitem tr ''pair'') (\<lambda>pr.
     and_then (wad_div amount_orig total) (\<lambda>q.
       Trade_init tid ts (wad_gt amount_orig (Wad 0)) pr q (wad_abs total))))))))))))"

text \<open>\<^verbatim>\<open>Trade.__eq__(self, other)\<close>: \<^verbatim>\<open>other\<close> is any Python object.\<close>

datatype py_object =
    TradeObj trade
  | OrderObj order
  | WadObj wad
  | JsonObj json

fun trade_eq :: "trade \<Rightarrow> py_object \<Rightarrow> error + bool" where
  "trade_eq t (TradeObj u) =
     Inr (trade_id t = trade_id u \<and> timestamp t = timestamp u \<and>
          trade_is_sell t = trade_is_sell u \<and> trade_pair t = trade_pair u \<and>
          trade_price t = trade_price u \<and> trade_amount t = trade_amount u)"
| "trade_eq t _ = Inl AssertionError"

section \<open>The token wrapper\<close>

record tethfinex_token =
  token :: string
  address :: string

text \<open>The \<^verbatim>\<open>Transact\<close> object that \<^verbatim>\<open>deposit\<close> builds: the contract, the name of the
  function, its arguments and the extra transaction fields.\<close>

record transact =
  contract_address :: string
  function_name :: string
  parameters :: "int list"
  extra :: "(string \<times> int) list"

definition deposit :: "tethfinex_token \<Rightarrow> wad \<Rightarrow> int \<Rightarrow> transact" where
  "deposit tk amt duration =
     (if token tk = ''ETH''
      then \<lparr>contract_address = address tk, function_name = ''deposit'',
            parameters = [wad_value amt, duration], extra = [(''value'', wad_value amt)]\<rparr>
      else \<lparr>contract_address = address tk, function_name = ''deposit'',
            parameters = [wad_value amt, duration], extra = []\<rparr>)"

section \<open>The API client\<close>

record request =
  req_method :: string
  req_url :: string
  req_json :: "json option"
  req_timeout :: rat

text \<open>A response of \<^verbatim>\<open>requests\<close>: \<open>resp_json\<close> is what \<^verbatim>\<open>result.json()\<close> returns,
  \<open>None\<close> when it raises.\<close>

record response =
  resp_ok :: bool
  resp_text :: string
  resp_json :: "json option"

record zrx_order =
  exchange :: string
  maker :: string
  taker :: string
  maker_fee :: wad
  taker_fee :: wad
  pay_token :: string
  pay_amount :: wad
  buy_token :: string
  buy_amount :: wad
  salt :: int
  fee_recipient :: string
  expiration :: int
  exchange_contract_address :: string
  ec_signature_r :: "string option"
  ec_signature_s :: "string option"
  ec_signature_v :: "int option"

text \<open>
  A \<^verbatim>\<open>TEthfinexApi\<close> object together with what it reaches outside the module during one
  call:
  \<^item> \<open>requests_send\<close>: \<^verbatim>\<open>requests.get\<close> and \<^verbatim>\<open>requests.post\<close>, the answer of the server
    to a request or the exception of the transport;
  \<^item> \<open>http_response_summary\<close>, \<open>eth_sign\<close>, \<open>sign_order\<close>, \<open>order_to_json\<close>
    (\<^verbatim>\<open>ZrxOrder.to_json\<close>), \<open>str_wad\<close> (\<^verbatim>\<open>Wad.__str__\<close>) and \<open>json_dumps\<close>: functions of
    \<^verbatim>\<open>pymaker\<close> and of the standard library;
  \<^item> \<open>nonce_text\<close>: \<^verbatim>\<open>str(time.time() + 3)\<close>; \<open>expiration_time\<close>: the unix time six
    hours from now; \<open>next_salt\<close>: the result of \<^verbatim>\<open>random_salt()\<close>;
  \<^item> \<open>default_account\<close> and \<open>exchange_address\<close>: the account and the address of the
    exchange contract binding \<^verbatim>\<open>self.tethfinex\<close>.
\<close>

record api =
  api_server :: string
  timeout :: rat
  conversions :: conv
  requests_send :: "request \<Rightarrow> error + response"
  http_response_summary :: "response \<Rightarrow> string"
  eth_sign :: "string \<Rightarrow> string"
  sign_order :: "zrx_order \<Rightarrow> zrx_order"
  order_to_json :: "zrx_order \<Rightarrow> json"
  str_wad :: "wad \<Rightarrow> string"
  json_dumps :: "(string \<times> json) list \<Rightarrow> string"
  nonce_text :: string
  expiration_time :: int
  next_salt :: int
  default_account :: string
  exchange_address :: string

text \<open>\<^verbatim>\<open>_result\<close>, a static method.\<close>

definition http_result :: "(response \<Rightarrow> string) \<Rightarrow> response \<Rightarrow> error + json" where
  "http_result summary r =
     (if \<not> resp_ok r
      then Inl (PyException (''Ethfinex API invalid HTTP response: '' @ summary r))
      else case resp_json r of
             None \<Rightarrow> Inl (PyException (''Ethfinex API invalid JSON response: '' @ summary r))
           | Some data \<Rightarrow> Inr data)"

text \<open>\<^verbatim>\<open>_http_post\<close> and \<^verbatim>\<open>_http_get\<close>. Every function of the client returns, beside its
  result, the list of the requests it has handed to \<^verbatim>\<open>requests\<close>.\<close>

definition http_post :: "api \<Rightarrow> string \<Rightarrow> (string \<times> json) list \<Rightarrow> request list \<times> (error + json)" where
  "http_post a resource body =
     (let req = \<lparr>req_method = ''POST'', req_url = api_server a @ resource,
                 req_json = (if body = [] then None else Some (JObj body)),
                 req_timeout = timeout a\<rparr>
      in ([req], and_then (requests_send a req) (http_result (http_response_summary a))))"

definition http_get :: "api \<Rightarrow> string \<Rightarrow> (string \<times> json) list \<Rightarrow> request list \<times> (error + json)" where
  "http_get a resource body =
     (let req = \<lparr>req_method = ''GET'', req_url = api_server a @ resource,
                 req_json = (if body = [] then None else Some (JStr (json_dumps a body))),
                 req_timeout = timeout a\<rparr>
      in ([req], and_then (requests_send a req) (http_result (http_response_summary a))))"

text \<open>\<^verbatim>\<open>_get_orders\<close>: the signed, nonce-stamped request.\<close>

definition signed_get_orders :: "api \<Rightarrow> string \<Rightarrow> request list \<times> (error + json)" where
  "signed_get_orders a endpoint =
     http_post a endpoint
       [(''protocol'', JStr ''0x''), (''nonce'', JStr (nonce_text a)),
        (''signature'', JStr (eth_sign a (nonce_text a)))]"

definition get_symbols :: "api \<Rightarrow> request list \<times> (error + json)" where
  "get_symbols a = http_get a ''/v1/symbols'' []"

definition get_config :: "api \<Rightarrow> request list \<times> (error + json)" where
  "get_config a = http_post a ''/trustless/v1/r/get/conf'' []"

text \<open>Iterating over a parsed JSON value: the elements of a list, the keys of a dict,
  the characters of a string; nothing else is iterable.\<close>

fun py_iter :: "json \<Rightarrow> error + json list" where
  "py_iter (JArr xs) = Inr xs"
| "py_iter (JObj kvs) = Inr (map (\<lambda>kv. JStr (fst kv)) kvs)"
| "py_iter (JStr s) = Inr (map (\<lambda>c. JStr [c]) s)"
| "py_iter _ = Inl TypeError"

text \<open>\<^verbatim>\<open>list(map(f, xs))\<close>: the first exception ends the loop.\<close>

fun map_err :: "('a \<Rightarrow> error + 'b) \<Rightarrow> 'a list \<Rightarrow> error + 'b list" where
  "map_err f [] = Inr []"
| "map_err f (x # xs) =
     and_then (f x) (\<lambda>y. and_then (map_err f xs) (\<lambda>ys. Inr (y # ys)))"

definition get_orders :: "api \<Rightarrow> string \<Rightarrow> request list \<times> (error + order list)" where
  "get_orders a pr =
     (let sent = signed_get_orders a (''/trustless/v1/r/orders/t'' @ pr)
      in (fst sent,
          and_then (snd sent) (\<lambda>result.
          and_then (py_iter result) (map_err (to_order (conversions a) pr)))))"

text \<open>\<^verbatim>\<open>'EXECUTED' in order['status']\<close>: a substring of a string, an element of a list, a
  key of a dict.\<close>

fun starts_with :: "string \<Rightarrow> string \<Rightarrow> bool" where
  "starts_with [] ys = True"
| "starts_with (x # xs) [] = False"
| "starts_with (x # xs) (y # ys) = (x = y \<and> starts_with xs ys)"

fun contains_str :: "string \<Rightarrow> string \<Rightarrow> bool" where
  "contains_str n [] = (n = [])"
| "contains_str n (y # ys) = (starts_with n (y # ys) \<or> contains_str n ys)"

fun py_in :: "string \<Rightarrow> json \<Rightarrow> error + bool" where
  "py_in n (JStr s) = Inr (contains_str n s)"
| "py_in n (JArr xs) = Inr (JStr n \<in> set xs)"
| "py_in n (JObj kvs) = Inr (n \<in> set (map fst kvs))"
| "py_in n _ = Inl TypeError"

definition executed :: "json \<Rightarrow> error + bool" where
  "executed ord = and_then (getitem ord ''status'') (py_in ''EXECUTED'')"

text \<open>\<^verbatim>\<open>list(map(to_trade, filter(executed, result)))\<close>: both iterators are lazy, so the
  test and the conversion of one entry run before the test of the next one.\<close>

fun executed_trades :: "conv \<Rightarrow> json list \<Rightarrow> error + trade list" where
  "executed_trades cv [] = Inr []"
| "executed_trades cv (x # xs) =
     and_then (executed x) (\<lambda>keep.
       if keep
       then and_then (to_trade cv x) (\<lambda>t.
            and_then (executed_trades cv xs) (\<lambda>ts. Inr (t # ts)))
       else executed_trades cv xs)"

definition get_trades :: "api \<Rightarrow> string \<Rightarrow> int \<Rightarrow> request list \<times> (error + trade list)" where
  "get_trades a pr page_number =
     (if page_number \<noteq> 1 then ([], Inl AssertionError)
      else let sent = signed_get_orders a ''/trustless/v1/r/orders/hist''
           in (fst sent,
               and_then (snd sent) (\<lambda>result.
               and_then (py_iter result) (executed_trades (conversions a)))))"

definition public_trade :: "conv \<Rightarrow> string \<Rightarrow> json \<Rightarrow> error + trade" where
  "public_trade cv pr item =
     and_then (getitem item ''tid'') (\<lambda>tid_raw.
     and_then (py_int (float_value cv) (int_of_str cv) tid_raw) (\<lambda>tid.
     and_then (getitem item ''timestamp'') (\<lambda>ts_raw.
     and_then (py_int (float_value cv) (int_of_str cv) ts_raw) (\<lambda>ts.
     and_then (getitem item ''type'') (\<lambda>ty.
     and_then (getitem item ''price'') (\<lambda>p_raw.
     and_then (from_number (decimal_of_str cv) p_raw) (\<lambda>p.
     and_then (getitem item ''amount'') (\<lambda>a_raw.
     and_then (from_number (decimal_of_str cv) a_raw) (\<lambda>am.
       Trade_init tid ts (ty = JStr ''sell'') (JStr pr) p am)))))))))"

definition get_all_trades :: "api \<Rightarrow> string \<Rightarrow> int \<Rightarrow> request list \<times> (error + trade list)" where
  "get_all_trades a pr page_number =
     (if page_number \<noteq> 1 then ([], Inl AssertionError)
      else let sent = http_get a (''/v1/trades/'' @ pr) []
           in (fst sent,
               and_then (snd sent) (\<lambda>result.
               and_then (py_iter result) (map_err (public_trade (conversions a) pr)))))"

text \<open>\<^verbatim>\<open>str(n)\<close> of an integer: its decimal digits, after a minus sign when negative.\<close>

fun str_nat :: "nat \<Rightarrow> string" where
  "str_nat n =
     (if n < 10 then [''0123456789'' ! n]
      else str_nat (n div 10) @ [''0123456789'' ! (n mod 10)])"

declare str_nat.simps [simp del]

definition str_int :: "int \<Rightarrow> string" where
  "str_int i = (if i < 0 then ''-'' @ str_nat (nat (- i)) else str_nat (nat i))"

text \<open>\<^verbatim>\<open>x == n\<close> for a parsed JSON value and an integer: numbers are compared by value, a
  float by its exact value \<open>fv q\<close> and not by its printed decimal \<open>q\<close>; \<^verbatim>\<open>True\<close> and
  \<^verbatim>\<open>False\<close> are the integers 1 and 0, anything else is unequal.\<close>

fun py_eq_int :: "(rat \<Rightarrow> rat) \<Rightarrow> json \<Rightarrow> int \<Rightarrow> bool" where
  "py_eq_int fv (JInt m) n = (m = n)"
| "py_eq_int fv (JFloat q) n = (fv q = of_int n)"
| "py_eq_int fv (JBool b) n = ((if b then 1 else 0) = n)"
| "py_eq_int fv _ n = False"

text \<open>\<^verbatim>\<open>place_order\<close>, first the \<^verbatim>\<open>ZrxOrder\<close> handed to the signer: the amount of the
  side that is not taken as it is, is the quotient of the two amounts times the
  divisor.\<close>

definition place_order_zrx ::
  "api \<Rightarrow> bool \<Rightarrow> string \<Rightarrow> wad \<Rightarrow> string \<Rightarrow> wad \<Rightarrow> string \<Rightarrow> error + zrx_order" where
  "place_order_zrx a sell pay_tok pay_amt buy_tok buy_amt fee_address =
     and_then (if sell then and_then (wad_div pay_amt buy_amt) (\<lambda>q. Inr (wad_mul q buy_amt))
               else Inr pay_amt) (\<lambda>order_pay.
     and_then (if sell then Inr buy_amt
               else and_then (wad_div buy_amt pay_amt) (\<lambda>q. Inr (wad_mul q pay_amt))) (\<lambda>order_buy.
       Inr \<lparr>exchange = exchange_address a, maker = default_account a, taker = fee_address,
            maker_fee = Wad 0, taker_fee = Wad 0,
            pay_token = pay_tok, pay_amount = order_pay,
            buy_token = buy_tok, buy_amount = order_buy,
            salt = next_salt a, fee_recipient = fee_address,
            expiration = expiration_time a,
            exchange_contract_address = exchange_address a,
            ec_signature_r = None, ec_signature_s = None, ec_signature_v = None\<rparr>))"

text \<open>Then the dictionary \<^verbatim>\<open>data\<close>, whose price is a quotient computed anew.\<close>

definition place_order_data ::
  "api \<Rightarrow> bool \<Rightarrow> string \<Rightarrow> wad \<Rightarrow> string \<Rightarrow> wad \<Rightarrow> string \<Rightarrow> string \<Rightarrow> error + (string \<times> json) list" where
  "place_order_data a sell pay_tok pay_amt buy_tok buy_amt fee_address pr =
     and_then (place_order_zrx a sell pay_tok pay_amt buy_tok buy_amt fee_address) (\<lambda>ord.
       let signed_order = sign_order a ord in
     and_then (if sell then wad_div pay_amt buy_amt else wad_div buy_amt pay_amt) (\<lambda>q.
       Inr [(''type'', JStr ''EXCHANGE LIMIT''),
            (''symbol'', JStr (''t'' @ pr)),
            (''amount'', JStr (if sell then str_wad a buy_amt else ''-'' @ str_wad a pay_amt)),
            (''price'', JStr (str_wad a q)),
            (''meta'', order_to_json a signed_order),
            (''protocol'', JStr ''0x'')]))"

text \<open>At last the request, and the first element of the answer.\<close>

definition place_order ::
  "api \<Rightarrow> bool \<Rightarrow> string \<Rightarrow> wad \<Rightarrow> string \<Rightarrow> wad \<Rightarrow> string \<Rightarrow> string \<Rightarrow> request list \<times> (error + json)" where
  "place_order a sell pay_tok pay_amt buy_tok buy_amt fee_address pr =
     (case place_order_data a sell pay_tok pay_amt buy_tok buy_amt fee_address pr of
        Inl e \<Rightarrow> ([], Inl e)
      | Inr data \<Rightarrow>
          let sent = http_post a ''/trustless/v1/w/on'' data
          in (fst sent, and_then (snd sent) getitem0))"

definition cancel_order_data :: "api \<Rightarrow> int \<Rightarrow> (string \<times> json) list" where
  "cancel_order_data a oid =
     [(''orderId'', JStr (str_int oid)), (''protocol'', JStr ''0x''),
      (''signature'', JStr (eth_sign a (str_int oid)))]"

definition cancel_order :: "api \<Rightarrow> int \<Rightarrow> request list \<times> (error + bool)" where
  "cancel_order a oid =
     (let sent = http_post a ''/trustless/v1/w/oc'' (cancel_order_data a oid)
      in (fst sent,
          and_then (snd sent) (\<lambda>result.
          and_then (getitem0 result) (\<lambda>first. Inr (py_eq_int (float_value (conversions a)) first oid)))))"

section \<open>Sample collaborators\<close>

text \<open>Concrete collaborators, on which the theorems below are instantiated: conversions
  that read no string as a number and know one date, and a client whose server is the
  function given. The exact value of a float is given for the floats that the samples
  meet: \<^verbatim>\<open>1e23\<close>, whose value is 99999999999999991611392, and binary fractions such as
  \<^verbatim>\<open>0.5\<close>, which are their printed decimal.\<close>

definition sample_conv :: conv where
  "sample_conv =
     \<lparr>decimal_of_str = (\<lambda>s. None), int_of_str = (\<lambda>s. None),
      float_value = (\<lambda>q. if q = 100000000000000000000000 then 99999999999999991611392 else q),
      parse_timestamp =
        (\<lambda>s. if s = ''2019-01-01T00:00:00Z'' then Inr 1546300800 else Inl ValueError)\<rparr>"

definition sample_api :: "(request \<Rightarrow> error + response) \<Rightarrow> api" where
  "sample_api server =
     \<lparr>api_server = ''https://test.ethfinex.com'', timeout = 19 / 2,
      conversions = sample_conv,
      requests_send = server,
      http_response_summary = (\<lambda>r. resp_text r),
      eth_sign = (\<lambda>m. ''0xsigned:'' @ m),
      sign_order = (\<lambda>z. z\<lparr>ec_signature_r := Some ''0x01'', ec_signature_s := Some ''0x02'',
                             ec_signature_v := Some 27\<rparr>),
      order_to_json = (\<lambda>z. JObj [(''maker'', JStr (maker z)), (''salt'', JInt (salt z))]),
      str_wad = (\<lambda>w. str_int (wad_value w) @ ''e-18''),
      json_dumps = (\<lambda>b. ''{}''),
      nonce_text = ''1546300803.0'',
      expiration_time = 1546322400,
      next_salt = 42,
      default_account = ''0xmaker'',
      exchange_address = ''0xexchange''\<rparr>"

text \<open>A server that answers every request with success and the given JSON value.\<close>

definition answering :: "json \<Rightarrow> request \<Rightarrow> error + response" where
  "answering j req = Inr \<lparr>resp_ok = True, resp_text = ''body'', resp_json = Some j\<rparr>"

text \<open>An order history with one executed and one cancelled entry.\<close>

definition sample_executed :: json where
  "sample_executed =
     JObj [(''id'', JInt 7), (''pair'', JStr ''ZRXETH''),
           (''status'', JStr ''EXECUTED @ 3.0(1.0)''),
           (''amount_orig'', JInt 1), (''price'', JInt 3),
           (''updated_at'', JStr ''2019-01-01T00:00:00'')]"

definition sample_history :: json where
  "sample_history =
     JArr [sample_executed,
           JObj [(''id'', JInt 8), (''pair'', JStr ''ETHUSD''), (''status'', JStr ''CANCELED'')]]"

text \<open>Raw records: an order, a trade whose reciprocal price is exact, and an order and
  a trade whose divisor is zero.\<close>

definition sample_order :: json where
  "sample_order = JObj [(''id'', JInt 7), (''amount'', JFloat (- 1 / 2)), (''price'', JInt 200)]"

definition sample_exact_trade :: json where
  "sample_exact_trade =
     JObj [(''id'', JInt 9), (''pair'', JStr ''ETHUSD''),
           (''status'', JStr ''EXECUTED @ 2.0(-1.5)''),
           (''amount_orig'', JFloat (- 3 / 2)), (''price'', JInt 2),
           (''updated_at'', JStr ''2019-01-01T00:00:00'')]"

definition sample_zero_order :: json where
  "sample_zero_order = JObj [(''id'', JInt 7), (''amount'', JInt 0), (''price'', JInt 200)]"

definition sample_zero_trade :: json where
  "sample_zero_trade =
     JObj [(''id'', JInt 9), (''pair'', JStr ''ETHUSD''), (''status'', JStr ''EXECUTED''),
           (''amount_orig'', JInt 5), (''price'', JInt 0),
           (''updated_at'', JStr ''2019-01-01T00:00:00'')]"

section \<open>Properties\<close>

subsection \<open>Auxiliary facts\<close>

lemma and_then_Inr:
  "and_then m f = Inr y \<Longrightarrow> \<exists>v. m = Inr v \<and> f v = Inr y"
  by (cases m) (simp_all add: and_then_def)

lemma Trade_init_Inr:
  "Trade_init tid ts sell pr p a = Inr t \<Longrightarrow>
     pr = JStr (trade_pair t) \<and> trade_id t = tid \<and> timestamp t = ts \<and>
     trade_is_sell t = sell \<and> trade_price t = p \<and> trade_amount t = a"
  by (cases pr) auto

lemma trade_eq_iff:
  "(t = u) = (trade_id t = trade_id u \<and> timestamp t = timestamp u \<and>
          trade_is_sell t = trade_is_sell u \<and> trade_pair t = trade_pair u \<and>
          trade_price t = trade_price u \<and> trade_amount t = trade_amount u)"
  for t u :: trade
  by (cases t, cases u) auto

lemma to_trade_pair:
  assumes "to_trade cv raw = Inr t"
  shows "getitem raw ''pair'' = Inr (JStr (trade_pair t))"
proof -
  from assms obtain pr tid ts sell q am
    where pr: "getitem raw ''pair'' = Inr pr" and "Trade_init tid ts sell pr q am = Inr t"
    unfolding to_trade_def Let_def
    by (auto dest!: and_then_Inr)
  from Trade_init_Inr [OF this(2)] pr show ?thesis by simp
qed

lemma sample_executed_trade:
  "to_trade sample_conv sample_executed =
     Inr \<lparr>trade_id = 7, timestamp = 1546300800, trade_is_sell = True,
          trade_pair = ''ZRXETH'', trade_price = Wad 333333333333333333,
          trade_amount = Wad 3000000000000000000\<rparr>"
  by (simp add: to_trade_def sample_executed_def sample_conv_def and_then_def
      wad_mul_def wad_div_def wad_gt_def wad_abs_def tdiv_def WAD_def)

subsection \<open>Division rounded towards zero\<close>

lemma WAD_pos: "0 < WAD"
  by (simp add: WAD_def)

lemma abs_tdiv: "\<bar>tdiv x y\<bar> = \<bar>x\<bar> div \<bar>y\<bar>"
proof (cases "x = 0 \<or> y = 0")
  case True
  then show ?thesis by (auto simp: tdiv_def)
next
  case False
  then have "\<bar>sgn x * sgn y\<bar> = 1" by (simp add: abs_mult)
  moreover have "0 \<le> \<bar>x\<bar> div \<bar>y\<bar>" using False by (simp add: pos_imp_zdiv_nonneg_iff)
  ultimately show ?thesis by (simp add: tdiv_def abs_mult)
qed

lemma tdiv_sgn: "tdiv x y = sgn x * sgn y * \<bar>tdiv x y\<bar>"
  by (simp add: abs_tdiv) (simp add: tdiv_def)

text \<open>Magnitudes: dividing and multiplying back loses less than one divisor.\<close>

lemma div_mult_back:
  fixes A T W :: int
  assumes "0 \<le> A" "0 < T" "0 < W"
  defines "k \<equiv> (A * W div T) * T div W"
  shows "k \<le> A" and "W * (A - k) < T + W" and "T dvd A * W \<Longrightarrow> k = A"
proof -
  let ?q = "A * W div T"
  have le: "?q * T \<le> A * W"
    using assms(2) by (metis div_mult_mod_eq add_increasing2 order_refl pos_mod_sign)
  have gt: "A * W < ?q * T + T"
    using assms(2) by (metis div_mult_mod_eq add_strict_left_mono pos_mod_bound)
  have "k \<le> A * W div W"
    unfolding k_def using le assms(3) by (intro zdiv_mono1) auto
  then show "k \<le> A" using assms(3) by simp
  have "?q * T < k * W + W"
    unfolding k_def using assms(3) by (metis div_mult_mod_eq add_strict_left_mono pos_mod_bound)
  with gt have "A * W < k * W + W + T" by linarith
  then show "W * (A - k) < T + W" by (simp add: algebra_simps)
  show "k = A" if "T dvd A * W"
  proof -
    from that have "?q * T = A * W" by simp
    then show ?thesis unfolding k_def using assms(3) by simp
  qed
qed

lemma tdiv_round_trip:
  fixes a t :: int
  assumes t: "t \<noteq> 0"
  defines "r \<equiv> tdiv (tdiv (a * WAD) t * t) WAD"
  shows "r = sgn a * \<bar>r\<bar>" and "\<bar>r\<bar> \<le> \<bar>a\<bar>" and "WAD * (\<bar>a\<bar> - \<bar>r\<bar>) < \<bar>t\<bar> + WAD"
    and "t dvd a * WAD \<Longrightarrow> r = a"
proof -
  let ?p = "tdiv (a * WAD) t"
  have absp: "\<bar>?p\<bar> = \<bar>a\<bar> * WAD div \<bar>t\<bar>"
    using WAD_pos by (simp add: abs_tdiv abs_mult)
  have absr: "\<bar>r\<bar> = (\<bar>a\<bar> * WAD div \<bar>t\<bar>) * \<bar>t\<bar> div WAD"
    unfolding r_def using WAD_pos by (simp add: abs_tdiv abs_mult absp)
  have p: "?p = sgn a * sgn t * \<bar>?p\<bar>"
    using tdiv_sgn [of "a * WAD" t] WAD_pos by (simp add: sgn_mult)
  have "r = sgn (?p * t) * sgn WAD * \<bar>r\<bar>"
    unfolding r_def by (rule tdiv_sgn)
  also have "sgn WAD = 1" using WAD_pos by simp
  finally have r1: "r = sgn ?p * sgn t * \<bar>r\<bar>" by (simp add: sgn_mult)
  show sg: "r = sgn a * \<bar>r\<bar>"
  proof (cases "?p = 0")
    case True
    then have "r = tdiv 0 WAD" by (simp add: r_def)
    then have "r = 0" by (simp add: tdiv_def)
    then show ?thesis by simp
  next
    case False
    then have "\<bar>?p\<bar> > 0" by simp
    then have "sgn ?p = sgn a * sgn t"
      using p by (metis mult.right_neutral sgn_mult sgn_pos sgn_sgn)
    with r1 t show ?thesis
      by (simp add: mult.assoc)
  qed
  from div_mult_back [of "\<bar>a\<bar>" "\<bar>t\<bar>" WAD] t WAD_pos
  show "\<bar>r\<bar> \<le> \<bar>a\<bar>" and "WAD * (\<bar>a\<bar> - \<bar>r\<bar>) < \<bar>t\<bar> + WAD"
    by (simp_all add: absr)
  show "r = a" if "t dvd a * WAD"
  proof -
    from that have "\<bar>t\<bar> dvd \<bar>a\<bar> * WAD" 
      by (metis WAD_pos that abs_dvd_iff dvd_abs_iff zdvd_antisym_abs dvd_if_abs_eq abs_mult)
    with div_mult_back(3) [of "\<bar>a\<bar>" "\<bar>t\<bar>" WAD] t WAD_pos
    have "\<bar>r\<bar> = \<bar>a\<bar>" by (simp add: absr)
    with sg show ?thesis by (simp add: mult_sgn_abs)
  qed
qed

subsection \<open>The conversions step by step\<close>

lemma trunc_rat_pos_iff: "trunc_rat y \<noteq> 0 \<Longrightarrow> (0 < trunc_rat y) = (0 < y)"
  by (auto simp: trunc_rat_def not_le) linarith+

lemma from_number_sign:
  assumes "from_number dec a_raw = Inr a" and "wad_value a \<noteq> 0"
  shows "(\<forall>n. a_raw = JInt n \<longrightarrow> (0 < wad_value a) = (0 < n)) \<and>
         (\<forall>x. a_raw = JFloat x \<longrightarrow> (0 < wad_value a) = (0 < x))"
proof (intro conjI allI impI)
  fix n assume "a_raw = JInt n"
  with assms show "(0 < wad_value a) = (0 < n)"
    using WAD_pos by (auto simp: zero_less_mult_iff)
next
  fix x assume "a_raw = JFloat x"
  with assms have "wad_value a = trunc_rat (x * of_int WAD)" and "trunc_rat (x * of_int WAD) \<noteq> 0"
    by auto
  with trunc_rat_pos_iff [of "x * of_int WAD"] show "(0 < wad_value a) = (0 < x)"
    using WAD_pos by (simp add: zero_less_mult_iff)
qed

lemma wad_mul_zero_left: "wad_value a = 0 \<Longrightarrow> wad_mul (wad_abs a) p = Wad 0"
  by (simp add: wad_mul_def wad_abs_def tdiv_def)

lemma to_order_eval:
  assumes "getitem ord ''amount'' = Inr a_raw"
      and "from_number (decimal_of_str cv) a_raw = Inr a"
      and "getitem ord ''id'' = Inr oid"
      and "getitem ord ''price'' = Inr p_raw"
      and "from_number (decimal_of_str cv) p_raw = Inr p"
  shows "to_order cv pr ord =
           and_then (wad_div (wad_abs a) (wad_mul (wad_abs a) p)) (\<lambda>q.
             Order_init oid pr (wad_gt a (Wad 0)) q (wad_mul (wad_abs a) p))"
  by (simp add: to_order_def assms and_then_def Let_def)

lemma plus_Z_Inr: "plus_Z j = Inr s \<Longrightarrow> \<exists>u. j = JStr u \<and> s = u @ ''Z''"
  by (cases j) auto

lemma Order_init_Inr:
  "Order_init oid pr sell p a = Inr ord \<Longrightarrow> price ord = p \<and> amount ord = a \<and> is_sell ord = sell"
  by (cases oid) auto

lemma wad_div_Inr:
  "wad_div a b = Inr q \<Longrightarrow> wad_value b \<noteq> 0 \<and> q = Wad (tdiv (wad_value a * WAD) (wad_value b))"
  by (auto simp: wad_div_def split: if_splits)

lemma to_trade_Inr:
  assumes "to_trade cv tr = Inr t"
  shows "\<exists>ao_raw ao p_raw p s.
           getitem tr ''amount_orig'' = Inr ao_raw \<and>
           from_number (decimal_of_str cv) ao_raw = Inr ao \<and>
           getitem tr ''price'' = Inr p_raw \<and>
           from_number (decimal_of_str cv) p_raw = Inr p \<and>
           getitem tr ''updated_at'' = Inr (JStr s) \<and>
           parse_timestamp cv (s @ ''Z'') = Inr (timestamp t) \<and>
           wad_div ao (wad_mul p ao) = Inr (trade_price t) \<and>
           trade_amount t = wad_abs (wad_mul p ao) \<and>
           trade_is_sell t = wad_gt ao (Wad 0)"
  using assms unfolding to_trade_def Let_def
  by (fastforce dest!: and_then_Inr Trade_init_Inr plus_Z_Inr)

lemma to_order_Inr:
  assumes "to_order cv pr ord = Inr res"
  shows "\<exists>a_raw a p_raw p.
           getitem ord ''amount'' = Inr a_raw \<and>
           from_number (decimal_of_str cv) a_raw = Inr a \<and>
           getitem ord ''price'' = Inr p_raw \<and>
           from_number (decimal_of_str cv) p_raw = Inr p \<and>
           wad_div (wad_abs a) (wad_mul (wad_abs a) p) = Inr (price res) \<and>
           amount res = wad_mul (wad_abs a) p \<and>
           is_sell res = wad_gt a (Wad 0)"
  using assms unfolding to_order_def Let_def
  by (fastforce dest!: and_then_Inr Order_init_Inr)

lemma wad_round_trip:
  assumes "wad_div ao tot = Inr q"
  shows "\<bar>wad_value (wad_mul q tot)\<bar> \<le> \<bar>wad_value ao\<bar>"
    and "WAD * \<bar>wad_value ao - wad_value (wad_mul q tot)\<bar> < \<bar>wad_value tot\<bar> + WAD"
    and "wad_value tot dvd wad_value ao * WAD \<Longrightarrow> wad_mul q tot = ao"
proof -
  let ?a = "wad_value ao" and ?t = "wad_value tot"
  let ?r = "tdiv (tdiv (?a * WAD) ?t * ?t) WAD"
  from wad_div_Inr [OF assms] have t: "?t \<noteq> 0" and q: "q = Wad (tdiv (?a * WAD) ?t)"
    by simp_all
  have r: "wad_value (wad_mul q tot) = ?r"
    by (simp add: wad_mul_def q)
  note rt = tdiv_round_trip [OF t, of ?a]
  show "\<bar>wad_value (wad_mul q tot)\<bar> \<le> \<bar>?a\<bar>"
    unfolding r by (rule rt(2))
  have "?a - ?r = sgn ?a * \<bar>?a\<bar> - sgn ?a * \<bar>?r\<bar>"
    by (metis rt(1) sgn_mult_abs)
  then have "?a - ?r = sgn ?a * (\<bar>?a\<bar> - \<bar>?r\<bar>)"
    by (simp add: right_diff_distrib)
  then have "\<bar>?a - ?r\<bar> = \<bar>sgn ?a\<bar> * (\<bar>?a\<bar> - \<bar>?r\<bar>)"
    using rt(2) by (simp add: abs_mult)
  also have "\<dots> = \<bar>?a\<bar> - \<bar>?r\<bar>"
    using rt(2) by (cases "?a = 0") simp_all
  finally show "WAD * \<bar>?a - wad_value (wad_mul q tot)\<bar> < \<bar>?t\<bar> + WAD"
    unfolding r using rt(3) by simp
  show "wad_mul q tot = ao" if "?t dvd ?a * WAD"
    using rt(4) [OF that] r by (cases ao, cases "wad_mul q tot") simp
qed

lemma from_number_Inl: "from_number dec j = Inl e \<Longrightarrow> e = ArithmeticError"
  by (cases j) (auto split: option.splits)

lemma sample_exact_trade_value:
  "to_trade sample_conv sample_exact_trade =
     Inr \<lparr>trade_id = 9, timestamp = 1546300800, trade_is_sell = False,
          trade_pair = ''ETHUSD'', trade_price = Wad 500000000000000000,
          trade_amount = Wad 3000000000000000000\<rparr>"
  by (simp add: to_trade_def sample_exact_trade_def sample_conv_def and_then_def
      wad_mul_def wad_div_def wad_gt_def wad_abs_def tdiv_def WAD_def trunc_rat_def)

lemma cancel_order_post:
  assumes "req = \<lparr>req_method = ''POST'', req_url = api_server a @ ''/trustless/v1/w/oc'',
                  req_json = Some (JObj [(''orderId'', JStr (str_int oid)),
                                         (''protocol'', JStr ''0x''),
                                         (''signature'', JStr (eth_sign a (str_int oid)))]),
                  req_timeout = timeout a\<rparr>"
  shows "cancel_order a oid =
     ([req],
      and_then (and_then (requests_send a req) (http_result (http_response_summary a)))
        (\<lambda>result. and_then (getitem0 result) (\<lambda>first. Inr (py_eq_int (float_value (conversions a)) first oid))))"
  by (simp add: cancel_order_def cancel_order_data_def http_post_def Let_def assms)

lemma place_order_sent:
  assumes nz: "wad_value (if sell then buy_amt else pay_amt) \<noteq> 0"
      and q: "q = Wad (if sell then tdiv (wad_value pay_amt * WAD) (wad_value buy_amt)
                       else tdiv (wad_value buy_amt * WAD) (wad_value pay_amt))"
      and req: "req = \<lparr>req_method = ''POST'', req_url = api_server a @ ''/trustless/v1/w/on'',
                  req_json = Some (JObj
                    [(''type'', JStr ''EXCHANGE LIMIT''),
                     (''symbol'', JStr (''t'' @ pr)),
                     (''amount'', JStr (if sell then str_wad a buy_amt else ''-'' @ str_wad a pay_amt)),
                     (''price'', JStr (str_wad a q)),
                     (''meta'', order_to_json a (sign_order a zrx)),
                     (''protocol'', JStr ''0x'')]),
                  req_timeout = timeout a\<rparr>"
      and zrx: "zrx = \<lparr>exchange = exchange_address a, maker = default_account a, taker = fee,
                  maker_fee = Wad 0, taker_fee = Wad 0,
                  pay_token = pay_tok, pay_amount = (if sell then wad_mul q buy_amt else pay_amt),
                  buy_token = buy_tok, buy_amount = (if sell then buy_amt else wad_mul q pay_amt),
                  salt = next_salt a, fee_recipient = fee,
                  expiration = expiration_time a,
                  exchange_contract_address = exchange_address a,
                  ec_signature_r = None, ec_signature_s = None, ec_signature_v = None\<rparr>"
  shows "(if sell then wad_div pay_amt buy_amt else wad_div buy_amt pay_amt) = Inr q \<and>
         fst (place_order a sell pay_tok pay_amt buy_tok buy_amt fee pr) = [req] \<and>
         (\<forall>resp x xs. requests_send a req = Inr resp \<and> resp_ok resp \<and>
              resp_json resp = Some (JArr (x # xs)) \<longrightarrow>
            snd (place_order a sell pay_tok pay_amt buy_tok buy_amt fee pr) = Inr x)"
proof -
  have d: "(if sell then wad_div pay_amt buy_amt else wad_div buy_amt pay_amt) = Inr q"
    using nz q by (cases sell) (simp_all add: wad_div_def)
  have z: "place_order_zrx a sell pay_tok pay_amt buy_tok buy_amt fee = Inr zrx"
    using d by (cases sell) (simp_all add: place_order_zrx_def and_then_def zrx)
  have data: "place_order_data a sell pay_tok pay_amt buy_tok buy_amt fee pr =
     Inr [(''type'', JStr ''EXCHANGE LIMIT''),
                     (''symbol'', JStr (''t'' @ pr)),
                     (''amount'', JStr (if sell then str_wad a buy_amt else ''-'' @ str_wad a pay_amt)),
                     (''price'', JStr (str_wad a q)),
                     (''meta'', order_to_json a (sign_order a zrx)),
                     (''protocol'', JStr ''0x'')]"
    unfolding place_order_data_def z d by (simp add: and_then_def)
  have post: "http_post a ''/trustless/v1/w/on''
       [(''type'', JStr ''EXCHANGE LIMIT''),
                     (''symbol'', JStr (''t'' @ pr)),
                     (''amount'', JStr (if sell then str_wad a buy_amt else ''-'' @ str_wad a pay_amt)),
                     (''price'', JStr (str_wad a q)),
                     (''meta'', order_to_json a (sign_order a zrx)),
                     (''protocol'', JStr ''0x'')] =
       ([req], and_then (requests_send a req) (http_result (http_response_summary a)))"
    by (simp add: http_post_def Let_def req)
  have sent: "fst (place_order a sell pay_tok pay_amt buy_tok buy_amt fee pr) = [req]"
    by (simp only: place_order_def data sum.case post Let_def fst_conv)
  have ret: "snd (place_order a sell pay_tok pay_amt buy_tok buy_amt fee pr) = Inr x"
    if "requests_send a req = Inr resp" "resp_ok resp" "resp_json resp = Some (JArr (x # xs))"
    for resp x xs
    using that
    by (simp only: place_order_def data sum.case post Let_def snd_conv)
       (simp add: and_then_def http_result_def)
  from d sent ret show ?thesis by blast
qed

lemma place_order_zero_divisor:
  assumes "wad_value (if sell then buy_amt else pay_amt) = 0"
  shows "place_order a sell pay_tok pay_amt buy_tok buy_amt fee pr = ([], Inl ArithmeticError)"
proof -
  have "place_order_zrx a sell pay_tok pay_amt buy_tok buy_amt fee = Inl ArithmeticError"
    using assms by (cases sell) (simp_all add: place_order_zrx_def and_then_def wad_div_def)
  then have "place_order_data a sell pay_tok pay_amt buy_tok buy_amt fee pr = Inl ArithmeticError"
    by (simp add: place_order_data_def and_then_def)
  then show ?thesis
    by (simp add: place_order_def)
qed

subsection \<open>The HTTP result\<close>

text \<open>
  C6: \<^verbatim>\<open>_result\<close> raises an exception whose message is the invalid-HTTP-response text
  followed by the summary of the response when the status is no success; when the status
  is a success and the body is no JSON it raises an exception whose message is the
  invalid-JSON-response text followed by the same summary; otherwise it returns the
  parsed JSON value. The two exceptions are different whatever the summaries are.
\<close>

theorem http_result_cases:
  "(\<not> resp_ok r \<longrightarrow>
      http_result summary r =
        Inl (PyException (''Ethfinex API invalid HTTP response: '' @ summary r))) \<and>
   (resp_ok r \<and> resp_json r = None \<longrightarrow>
      http_result summary r =
        Inl (PyException (''Ethfinex API invalid JSON response: '' @ summary r))) \<and>
   (resp_ok r \<and> resp_json r = Some data \<longrightarrow> http_result summary r = Inr data) \<and>
   PyException (''Ethfinex API invalid HTTP response: '' @ s1) \<noteq>
   PyException (''Ethfinex API invalid JSON response: '' @ s2)"
  by (simp add: http_result_def)

theorem http_result_cases_witness:
  "http_result resp_text \<lparr>resp_ok = False, resp_text = ''404'', resp_json = Some JNull\<rparr> =
     Inl (PyException ''Ethfinex API invalid HTTP response: 404'') \<and>
   http_result resp_text \<lparr>resp_ok = True, resp_text = ''<html>'', resp_json = None\<rparr> =
     Inl (PyException ''Ethfinex API invalid JSON response: <html>'') \<and>
   http_result resp_text \<lparr>resp_ok = True, resp_text = ''[1]'', resp_json = Some (JArr [JInt 1])\<rparr> =
     Inr (JArr [JInt 1])"
  using http_result_cases
          [of "\<lparr>resp_ok = False, resp_text = ''404'', resp_json = Some JNull\<rparr>"
              resp_text JNull "[]" "[]"]
        http_result_cases
          [of "\<lparr>resp_ok = True, resp_text = ''<html>'', resp_json = None\<rparr>"
              resp_text JNull "[]" "[]"]
        http_result_cases
          [of "\<lparr>resp_ok = True, resp_text = ''[1]'', resp_json = Some (JArr [JInt 1])\<rparr>"
              resp_text "JArr [JInt 1]" "[]" "[]"]
  by simp

subsection \<open>The page number\<close>

text \<open>
  C7: for every pair and every page number other than 1, \<^verbatim>\<open>get_trades\<close> and
  \<^verbatim>\<open>get_all_trades\<close> fail with an assertion error and have sent no request; with the
  page number 1 the check passes and each of them sends its one request.
\<close>

theorem page_number_must_be_one:
  "(page_number \<noteq> 1 \<longrightarrow>
      get_trades a pr page_number = ([], Inl AssertionError) \<and>
      get_all_trades a pr page_number = ([], Inl AssertionError)) \<and>
   fst (get_trades a pr 1) =
     [\<lparr>req_method = ''POST'', req_url = api_server a @ ''/trustless/v1/r/orders/hist'',
       req_json = Some (JObj [(''protocol'', JStr ''0x''), (''nonce'', JStr (nonce_text a)),
                              (''signature'', JStr (eth_sign a (nonce_text a)))]),
       req_timeout = timeout a\<rparr>] \<and>
   fst (get_all_trades a pr 1) =
     [\<lparr>req_method = ''GET'', req_url = api_server a @ ''/v1/trades/'' @ pr,
       req_json = None, req_timeout = timeout a\<rparr>]"
  by (simp add: get_trades_def get_all_trades_def signed_get_orders_def http_post_def
      http_get_def Let_def)

theorem page_number_must_be_one_witness:
  "(2::int) \<noteq> 1 \<and> (0::int) \<noteq> 1 \<and>
   get_trades (sample_api (answering sample_history)) ''ETHUSD'' 2 = ([], Inl AssertionError) \<and>
   get_all_trades (sample_api (answering sample_history)) ''ETHUSD'' 0 =
     ([], Inl AssertionError)"
  using page_number_must_be_one [of 2 "sample_api (answering sample_history)" "''ETHUSD''"]
        page_number_must_be_one [of 0 "sample_api (answering sample_history)" "''ETHUSD''"]
  by simp

subsection \<open>The deposit\<close>

text \<open>
  C8: for every amount and duration, \<^verbatim>\<open>deposit\<close> builds a call of the contract function
  \<^verbatim>\<open>deposit\<close> with the arguments amount and duration, whatever the token is; the
  transaction carries the amount as its value when the token symbol is \<^verbatim>\<open>ETH\<close>, and no
  value for any other symbol.
\<close>

theorem deposit_value_iff_eth:
  "function_name (deposit tk amt duration) = ''deposit'' \<and>
   parameters (deposit tk amt duration) = [wad_value amt, duration] \<and>
   contract_address (deposit tk amt duration) = address tk \<and>
   extra (deposit tk amt duration) =
     (if token tk = ''ETH'' then [(''value'', wad_value amt)] else [])"
  by (simp add: deposit_def)

subsection \<open>The pair argument of the trade history\<close>

text \<open>
  C9: for every two pairs and the same client and server, \<^verbatim>\<open>get_trades\<close> sends the same
  request, to the order history endpoint, and returns the same list of trades or the same
  exception; the pair of a trade that \<^verbatim>\<open>to_trade\<close> returns is the string stored under
  \<^verbatim>\<open>pair\<close> in the raw record.
\<close>

theorem get_trades_ignores_pair:
  "get_trades a p1 page_number = get_trades a p2 page_number \<and>
   map req_url (fst (get_trades a p1 1)) = [api_server a @ ''/trustless/v1/r/orders/hist''] \<and>
   (to_trade cv raw = Inr t \<longrightarrow> getitem raw ''pair'' = Inr (JStr (trade_pair t)))"
  using to_trade_pair [of cv raw t]
  by (simp add: get_trades_def signed_get_orders_def http_post_def Let_def)

theorem get_trades_ignores_pair_witness:
  "to_trade sample_conv sample_executed =
     Inr \<lparr>trade_id = 7, timestamp = 1546300800, trade_is_sell = True,
          trade_pair = ''ZRXETH'', trade_price = Wad 333333333333333333,
          trade_amount = Wad 3000000000000000000\<rparr> \<and>
   getitem sample_executed ''pair'' = Inr (JStr ''ZRXETH'') \<and>
   get_trades (sample_api (answering sample_history)) ''ETHUSD'' 1 =
   get_trades (sample_api (answering sample_history)) ''ZRXETH'' 1"
  using get_trades_ignores_pair
          [of "sample_api (answering sample_history)" "''ETHUSD''" 1 "''ZRXETH''"
              sample_conv sample_executed
              "\<lparr>trade_id = 7, timestamp = 1546300800, trade_is_sell = True,
                trade_pair = ''ZRXETH'', trade_price = Wad 333333333333333333,
                trade_amount = Wad 3000000000000000000\<rparr>"]
        sample_executed_trade
  by simp

subsection \<open>Equality of trades\<close>

text \<open>
  C10: comparing a trade with a value that is no \<^verbatim>\<open>Trade\<close> raises an assertion error;
  between two trades the comparison returns whether all six fields are equal.
\<close>

theorem trade_eq_asserts_trade:
  "trade_eq t (TradeObj u) = Inr (t = u) \<and>
   ((\<forall>u. other \<noteq> TradeObj u) \<longrightarrow> trade_eq t other = Inl AssertionError)"
proof
  show "trade_eq t (TradeObj u) = Inr (t = u)"
    by (simp add: trade_eq_iff [of t u])
next
  show "(\<forall>u. other \<noteq> TradeObj u) \<longrightarrow> trade_eq t other = Inl AssertionError"
    by (cases other) simp_all
qed

theorem trade_eq_asserts_trade_witness:
  "(\<forall>u. JsonObj (JInt 5) \<noteq> TradeObj u) \<and>
   trade_eq \<lparr>trade_id = 5, timestamp = 0, trade_is_sell = True, trade_pair = ''ETHUSD'',
             trade_price = Wad 1, trade_amount = Wad 2\<rparr> (JsonObj (JInt 5)) =
     Inl AssertionError \<and>
   trade_eq \<lparr>trade_id = 5, timestamp = 0, trade_is_sell = True, trade_pair = ''ETHUSD'',
             trade_price = Wad 1, trade_amount = Wad 2\<rparr>
     (TradeObj \<lparr>trade_id = 5, timestamp = 0, trade_is_sell = True, trade_pair = ''ETHUSD'',
                trade_price = Wad 1, trade_amount = Wad 3\<rparr>) = Inr False"
  using trade_eq_asserts_trade
          [of "\<lparr>trade_id = 5, timestamp = 0, trade_is_sell = True, trade_pair = ''ETHUSD'',
                trade_price = Wad 1, trade_amount = Wad 2\<rparr>"
              "\<lparr>trade_id = 5, timestamp = 0, trade_is_sell = True, trade_pair = ''ETHUSD'',
                trade_price = Wad 1, trade_amount = Wad 3\<rparr>"
              "JsonObj (JInt 5)"]
  by simp

subsection \<open>The conversion of an order\<close>

text \<open>
  C1 (as amended): for every raw order record with an integer identifier and numeric
  amount and price, whose fixed-point product \<^verbatim>\<open>abs(amount) * price\<close> is not zero,
  \<^verbatim>\<open>to_order\<close> returns an order whose side is \<^verbatim>\<open>amount > 0\<close> (of the fixed-point amount,
  and so of the raw number), whose amount is that product and whose price is the
  fixed-point quotient \<^verbatim>\<open>abs(amount) / (abs(amount) * price)\<close>; when the product is zero
  it raises an arithmetic error.
\<close>

theorem to_order_fields:
  assumes "getitem ord ''amount'' = Inr a_raw"
      and "from_number (decimal_of_str cv) a_raw = Inr a"
      and "getitem ord ''id'' = Inr (JInt oid)"
      and "getitem ord ''price'' = Inr p_raw"
      and "from_number (decimal_of_str cv) p_raw = Inr p"
  shows "(wad_mul (wad_abs a) p \<noteq> Wad 0 \<longrightarrow>
            (\<exists>q. wad_div (wad_abs a) (wad_mul (wad_abs a) p) = Inr q \<and>
                 to_order cv pr ord =
                   Inr \<lparr>order_id = oid, pair = pr, is_sell = (0 < wad_value a), price = q,
                        amount = wad_mul (wad_abs a) p\<rparr>) \<and>
            (\<forall>n. a_raw = JInt n \<longrightarrow> (0 < wad_value a) = (0 < n)) \<and>
            (\<forall>x. a_raw = JFloat x \<longrightarrow> (0 < wad_value a) = (0 < x))) \<and>
         (wad_mul (wad_abs a) p = Wad 0 \<longrightarrow> to_order cv pr ord = Inl ArithmeticError)"
proof (intro conjI impI)
  assume nz: "wad_mul (wad_abs a) p \<noteq> Wad 0"
  then have d: "wad_value (wad_mul (wad_abs a) p) \<noteq> 0"
    by (cases "wad_mul (wad_abs a) p") auto
  then show "\<exists>q. wad_div (wad_abs a) (wad_mul (wad_abs a) p) = Inr q \<and>
                 to_order cv pr ord =
                   Inr \<lparr>order_id = oid, pair = pr, is_sell = (0 < wad_value a), price = q,
                        amount = wad_mul (wad_abs a) p\<rparr>"
    unfolding to_order_eval [OF assms]
    by (simp add: wad_div_def and_then_def wad_gt_def)
  from nz have "wad_value a \<noteq> 0"
    using wad_mul_zero_left [of a p] by blast
  from from_number_sign [OF assms(2) this]
  show "\<forall>n. a_raw = JInt n \<longrightarrow> (0 < wad_value a) = (0 < n)"
    and "\<forall>x. a_raw = JFloat x \<longrightarrow> (0 < wad_value a) = (0 < x)"
    by blast+
next
  assume "wad_mul (wad_abs a) p = Wad 0"
  then show "to_order cv pr ord = Inl ArithmeticError"
    unfolding to_order_eval [OF assms]
    by (simp add: wad_div_def and_then_def)
qed

theorem to_order_fields_witness:
  "to_order sample_conv ''ETHUSD'' sample_order =
     Inr \<lparr>order_id = 7, pair = ''ETHUSD'', is_sell = False, price = Wad 5000000000000000,
          amount = Wad 100000000000000000000\<rparr>"
proof -
  have a: "from_number (decimal_of_str sample_conv) (JFloat (- 1 / 2)) = Inr (Wad (- 500000000000000000))"
    by (simp add: trunc_rat_def WAD_def)
  have p: "from_number (decimal_of_str sample_conv) (JInt 200) = Inr (Wad 200000000000000000000)"
    by (simp add: WAD_def)
  have m: "wad_mul (wad_abs (Wad (- 500000000000000000))) (Wad 200000000000000000000) =
           Wad 100000000000000000000"
    by (simp add: wad_mul_def wad_abs_def tdiv_def WAD_def)
  have d: "wad_div (wad_abs (Wad (- 500000000000000000))) (Wad 100000000000000000000) =
           Inr (Wad 5000000000000000)"
    by (simp add: wad_div_def wad_abs_def tdiv_def WAD_def)
  from to_order_fields [of sample_order "JFloat (- 1 / 2)" sample_conv
                           "Wad (- 500000000000000000)" 7 "JInt 200"
                           "Wad 200000000000000000000" "''ETHUSD''", OF _ a _ _ p]
  show ?thesis
    by (simp add: sample_order_def m d)
qed

text \<open>
  C1 as stated fails: an order with the nonzero amount 1 and the price 0 has the product
  zero, and \<^verbatim>\<open>to_order\<close> raises instead of returning an order.
\<close>

theorem to_order_zero_price:
  "JInt 1 \<noteq> JInt 0 \<and>
   to_order sample_conv ''ETHUSD''
     (JObj [(''id'', JInt 7), (''amount'', JInt 1), (''price'', JInt 0)]) = Inl ArithmeticError"
  by (simp add: to_order_def sample_conv_def and_then_def wad_mul_def wad_div_def wad_abs_def
      wad_gt_def tdiv_def WAD_def)

subsection \<open>The conversion of a trade\<close>

text \<open>
  C2 (as amended): for every raw trade for which \<^verbatim>\<open>to_trade\<close> returns, with
  \<^verbatim>\<open>total = price * amount_orig\<close>, the price of the trade is the fixed-point quotient
  \<^verbatim>\<open>amount_orig / total\<close>; \<^verbatim>\<open>price * total\<close> is not larger in magnitude than
  \<^verbatim>\<open>amount_orig\<close> and differs from it by less than \<open>(\<bar>total\<bar> + 10\<^sup>1\<^sup>8) / 10\<^sup>1\<^sup>8\<close> units; it
  is equal to \<^verbatim>\<open>amount_orig\<close> when \<^verbatim>\<open>total\<close> divides \<open>amount_orig * 10\<^sup>1\<^sup>8\<close>. The timestamp
  is what the parser reads from \<^verbatim>\<open>updated_at\<close> followed by \<^verbatim>\<open>Z\<close>.
\<close>

theorem to_trade_round_trip:
  assumes "getitem tr ''amount_orig'' = Inr ao_raw"
      and "from_number (decimal_of_str cv) ao_raw = Inr amount_orig"
      and "getitem tr ''price'' = Inr p_raw"
      and "from_number (decimal_of_str cv) p_raw = Inr p"
      and "tot = wad_mul p amount_orig"
      and "to_trade cv tr = Inr t"
  shows "wad_div amount_orig tot = Inr (trade_price t) \<and>
         \<bar>wad_value (wad_mul (trade_price t) tot)\<bar> \<le> \<bar>wad_value amount_orig\<bar> \<and>
         WAD * \<bar>wad_value amount_orig - wad_value (wad_mul (trade_price t) tot)\<bar>
           < \<bar>wad_value tot\<bar> + WAD \<and>
         (wad_value tot dvd wad_value amount_orig * WAD \<longrightarrow>
            wad_mul (trade_price t) tot = amount_orig) \<and>
         (\<exists>s. getitem tr ''updated_at'' = Inr (JStr s) \<and>
              parse_timestamp cv (s @ ''Z'') = Inr (timestamp t))"
proof -
  from to_trade_Inr [OF assms(6)] assms(1-5)
  obtain s where d: "wad_div amount_orig tot = Inr (trade_price t)"
    and s: "getitem tr ''updated_at'' = Inr (JStr s)"
           "parse_timestamp cv (s @ ''Z'') = Inr (timestamp t)"
    by auto
  from wad_round_trip [OF d] d s show ?thesis by blast
qed

theorem to_trade_round_trip_witness:
  "to_trade sample_conv sample_exact_trade =
     Inr \<lparr>trade_id = 9, timestamp = 1546300800, trade_is_sell = False,
          trade_pair = ''ETHUSD'', trade_price = Wad 500000000000000000,
          trade_amount = Wad 3000000000000000000\<rparr> \<and>
   wad_mul (Wad 500000000000000000) (Wad (- 3000000000000000000)) =
     Wad (- 1500000000000000000) \<and>
   (\<exists>s. getitem sample_exact_trade ''updated_at'' = Inr (JStr s) \<and>
        parse_timestamp sample_conv (s @ ''Z'') = Inr 1546300800)"
proof -
  have ao: "from_number (decimal_of_str sample_conv) (JFloat (- 3 / 2)) =
              Inr (Wad (- 1500000000000000000))"
    by (simp add: trunc_rat_def WAD_def)
  have p: "from_number (decimal_of_str sample_conv) (JInt 2) = Inr (Wad 2000000000000000000)"
    by (simp add: WAD_def)
  have tot: "Wad (- 3000000000000000000) =
               wad_mul (Wad 2000000000000000000) (Wad (- 1500000000000000000))"
    by (simp add: wad_mul_def tdiv_def WAD_def)
  have dv: "(- 3000000000000000000 :: int) dvd - 1500000000000000000 * WAD"
    by (simp add: WAD_def)
  from to_trade_round_trip
         [of sample_exact_trade "JFloat (- 3 / 2)" sample_conv "Wad (- 1500000000000000000)"
             "JInt 2" "Wad 2000000000000000000" "Wad (- 3000000000000000000)"
             "\<lparr>trade_id = 9, timestamp = 1546300800, trade_is_sell = False,
               trade_pair = ''ETHUSD'', trade_price = Wad 500000000000000000,
               trade_amount = Wad 3000000000000000000\<rparr>",
          OF _ ao _ p tot sample_exact_trade_value]
       dv sample_exact_trade_value
  show ?thesis
    by (simp add: sample_exact_trade_def)
qed

text \<open>
  C2 as stated fails: for the amount 1 and the price 3 the total is 3, the price of the
  trade is 0.333333333333333333, and price times total is 0.999999999999999999.
\<close>

theorem to_trade_round_trip_inexact:
  "to_trade sample_conv sample_executed =
     Inr \<lparr>trade_id = 7, timestamp = 1546300800, trade_is_sell = True,
          trade_pair = ''ZRXETH'', trade_price = Wad 333333333333333333,
          trade_amount = Wad 3000000000000000000\<rparr> \<and>
   from_number (decimal_of_str sample_conv) (JInt 1) = Inr (Wad 1000000000000000000) \<and>
   from_number (decimal_of_str sample_conv) (JInt 3) = Inr (Wad 3000000000000000000) \<and>
   wad_mul (Wad 3000000000000000000) (Wad 1000000000000000000) = Wad 3000000000000000000 \<and>
   wad_mul (Wad 333333333333333333) (Wad 3000000000000000000) = Wad 999999999999999999 \<and>
   Wad 999999999999999999 \<noteq> Wad 1000000000000000000"
  using sample_executed_trade
  by (simp add: wad_mul_def tdiv_def WAD_def)

subsection \<open>Division by zero\<close>

text \<open>
  C5: when the fixed-point amount of a raw order is zero, \<^verbatim>\<open>to_order\<close> returns no
  order, and raises an arithmetic error once the identifier and the price are there; when
  the total of a raw trade is zero, \<^verbatim>\<open>to_trade\<close> returns no trade, and raises an
  arithmetic error once the fields read before the division are there. A price that
  either function returns is a quotient by a divisor that is not zero. The raw numbers
  \<^verbatim>\<open>0\<close> and \<^verbatim>\<open>0.0\<close> are the fixed-point zero.
\<close>

theorem zero_divisor_raises:
  "(getitem ord ''amount'' = Inr a_raw \<and>
    from_number (decimal_of_str cv) a_raw = Inr (Wad 0) \<longrightarrow>
      (\<forall>res. to_order cv pr ord \<noteq> Inr res) \<and>
      (\<forall>oid p_raw. getitem ord ''id'' = Inr oid \<and> getitem ord ''price'' = Inr p_raw \<longrightarrow>
         to_order cv pr ord = Inl ArithmeticError)) \<and>
   (getitem tr ''amount_orig'' = Inr ao_raw \<and>
    from_number (decimal_of_str cv) ao_raw = Inr ao \<and>
    getitem tr ''price'' = Inr tp_raw \<and>
    from_number (decimal_of_str cv) tp_raw = Inr tp \<and>
    wad_mul tp ao = Wad 0 \<longrightarrow>
      (\<forall>t. to_trade cv tr \<noteq> Inr t) \<and>
      (\<forall>id_raw tid s ts tpair.
         getitem tr ''id'' = Inr id_raw \<and> py_int (float_value cv) (int_of_str cv) id_raw = Inr tid \<and>
         getitem tr ''updated_at'' = Inr (JStr s) \<and>
         parse_timestamp cv (s @ ''Z'') = Inr ts \<and>
         getitem tr ''pair'' = Inr tpair \<longrightarrow>
         to_trade cv tr = Inl ArithmeticError)) \<and>
   (to_order cv pr ord = Inr res \<longrightarrow>
      (\<exists>n d. d \<noteq> 0 \<and> price res = Wad (tdiv (n * WAD) d))) \<and>
   (to_trade cv tr = Inr t \<longrightarrow>
      (\<exists>n d. d \<noteq> 0 \<and> trade_price t = Wad (tdiv (n * WAD) d))) \<and>
   from_number (decimal_of_str cv) (JInt 0) = Inr (Wad 0) \<and>
   from_number (decimal_of_str cv) (JFloat 0) = Inr (Wad 0)"
proof (intro conjI impI allI)
  assume h: "getitem ord ''amount'' = Inr a_raw \<and>
    from_number (decimal_of_str cv) a_raw = Inr (Wad 0)"
  show "to_order cv pr ord \<noteq> Inr res" for res
  proof
    assume "to_order cv pr ord = Inr res"
    from to_order_Inr [OF this] h
    obtain p where "wad_div (wad_abs (Wad 0)) (wad_mul (wad_abs (Wad 0)) p) = Inr (price res)"
      by auto
    then show False
      by (simp add: wad_div_def wad_mul_def wad_abs_def tdiv_def)
  qed
  show "to_order cv pr ord = Inl ArithmeticError"
    if "getitem ord ''id'' = Inr oid \<and> getitem ord ''price'' = Inr p_raw" for oid p_raw
    using h that
    by (cases "from_number (decimal_of_str cv) p_raw")
       (auto dest: from_number_Inl simp: to_order_def and_then_def wad_div_def wad_mul_def wad_abs_def tdiv_def)
next
  assume h: "getitem tr ''amount_orig'' = Inr ao_raw \<and>
    from_number (decimal_of_str cv) ao_raw = Inr ao \<and>
    getitem tr ''price'' = Inr tp_raw \<and>
    from_number (decimal_of_str cv) tp_raw = Inr tp \<and>
    wad_mul tp ao = Wad 0"
  show "to_trade cv tr \<noteq> Inr t" for t
  proof
    assume "to_trade cv tr = Inr t"
    from to_trade_Inr [OF this] h have "wad_div ao (Wad 0) = Inr (trade_price t)"
      by auto
    then show False by (simp add: wad_div_def)
  qed
  show "to_trade cv tr = Inl ArithmeticError"
    if "getitem tr ''id'' = Inr id_raw \<and> py_int (float_value cv) (int_of_str cv) id_raw = Inr tid \<and>
         getitem tr ''updated_at'' = Inr (JStr s) \<and>
         parse_timestamp cv (s @ ''Z'') = Inr ts \<and>
         getitem tr ''pair'' = Inr tpair" for id_raw tid s ts tpair
    using h that
    by (simp add: to_trade_def and_then_def wad_div_def)
next
  assume "to_order cv pr ord = Inr res"
  from to_order_Inr [OF this]
  obtain a p where "wad_div (wad_abs a) (wad_mul (wad_abs a) p) = Inr (price res)"
    by auto
  from wad_div_Inr [OF this] show "\<exists>n d. d \<noteq> 0 \<and> price res = Wad (tdiv (n * WAD) d)"
    by blast
next
  assume "to_trade cv tr = Inr t"
  from to_trade_Inr [OF this]
  obtain ao' p where "wad_div ao' (wad_mul p ao') = Inr (trade_price t)"
    by auto
  from wad_div_Inr [OF this] show "\<exists>n d. d \<noteq> 0 \<and> trade_price t = Wad (tdiv (n * WAD) d)"
    by blast
next
  show "from_number (decimal_of_str cv) (JInt 0) = Inr (Wad 0)" by simp
  show "from_number (decimal_of_str cv) (JFloat 0) = Inr (Wad 0)" by (simp add: trunc_rat_def)
qed

theorem zero_divisor_raises_witness:
  "to_order sample_conv ''ETHUSD'' sample_zero_order = Inl ArithmeticError \<and>
   to_trade sample_conv sample_zero_trade = Inl ArithmeticError \<and>
   (\<exists>n d. d \<noteq> 0 \<and> Wad 333333333333333333 = Wad (tdiv (n * WAD) d))"
proof -
  have a: "from_number (decimal_of_str sample_conv) (JInt 0) = Inr (Wad 0)"
    by simp
  have ao: "from_number (decimal_of_str sample_conv) (JInt 5) = Inr (Wad 5000000000000000000)"
    by (simp add: WAD_def)
  have z: "wad_mul (Wad 0) (Wad 5000000000000000000) = Wad 0"
    by (simp add: wad_mul_def tdiv_def)
  have i: "py_int (float_value sample_conv) (int_of_str sample_conv) (JInt 9) = Inr 9"
    by simp
  have ts: "parse_timestamp sample_conv (''2019-01-01T00:00:00'' @ ''Z'') = Inr 1546300800"
    by (simp add: sample_conv_def)
  from zero_divisor_raises
         [of sample_zero_order "JInt 0" sample_conv "''ETHUSD''" sample_zero_trade "JInt 5"
             "Wad 5000000000000000000" "JInt 0" "Wad 0"
             "\<lparr>order_id = 7, pair = ''ETHUSD'', is_sell = False, price = Wad 5000000000000000,
               amount = Wad 100000000000000000000\<rparr>"
             "\<lparr>trade_id = 7, timestamp = 1546300800, trade_is_sell = True,
               trade_pair = ''ZRXETH'', trade_price = Wad 333333333333333333,
               trade_amount = Wad 3000000000000000000\<rparr>"]
       a ao z i ts
  have "to_order sample_conv ''ETHUSD'' sample_zero_order = Inl ArithmeticError"
   and "to_trade sample_conv sample_zero_trade = Inl ArithmeticError"
    by (simp_all add: sample_zero_order_def sample_zero_trade_def)
  moreover have "\<exists>n d. d \<noteq> 0 \<and> Wad 333333333333333333 = Wad (tdiv (n * WAD) d)"
    by (rule exI [of _ 1], rule exI [of _ 3]) (simp add: tdiv_def WAD_def)
  ultimately show ?thesis by blast
qed

subsection \<open>Placing an order\<close>

text \<open>
  C3: when the divisor (\<^verbatim>\<open>buy_amount\<close> of a sale, \<^verbatim>\<open>pay_amount\<close> of a purchase) is not
  zero, \<^verbatim>\<open>place_order\<close> sends one POST request to the placement endpoint whose payload has
  the type \<^verbatim>\<open>EXCHANGE LIMIT\<close>, the symbol \<^verbatim>\<open>t\<close> followed by the pair, the protocol \<^verbatim>\<open>0x\<close>,
  as amount the text of \<^verbatim>\<open>buy_amount\<close> for a sale and a minus sign followed by the text of
  \<^verbatim>\<open>pay_amount\<close> otherwise, as price the text of \<^verbatim>\<open>pay_amount / buy_amount\<close> for a sale and
  of \<^verbatim>\<open>buy_amount / pay_amount\<close> otherwise, and as meta the JSON form of the signed order;
  it returns the first element of the array the server answers with. When the divisor is
  zero the quotient raises an arithmetic error and no request is sent.
\<close>

theorem place_order_payload:
  assumes q: "q = Wad (if sell then tdiv (wad_value pay_amt * WAD) (wad_value buy_amt)
                       else tdiv (wad_value buy_amt * WAD) (wad_value pay_amt))"
      and req: "req = \<lparr>req_method = ''POST'', req_url = api_server a @ ''/trustless/v1/w/on'',
                  req_json = Some (JObj
                    [(''type'', JStr ''EXCHANGE LIMIT''),
                     (''symbol'', JStr (''t'' @ pr)),
                     (''amount'', JStr (if sell then str_wad a buy_amt else ''-'' @ str_wad a pay_amt)),
                     (''price'', JStr (str_wad a q)),
                     (''meta'', order_to_json a (sign_order a zrx)),
                     (''protocol'', JStr ''0x'')]),
                  req_timeout = timeout a\<rparr>"
      and zrx: "zrx = \<lparr>exchange = exchange_address a, maker = default_account a, taker = fee,
                  maker_fee = Wad 0, taker_fee = Wad 0,
                  pay_token = pay_tok, pay_amount = (if sell then wad_mul q buy_amt else pay_amt),
                  buy_token = buy_tok, buy_amount = (if sell then buy_amt else wad_mul q pay_amt),
                  salt = next_salt a, fee_recipient = fee,
                  expiration = expiration_time a,
                  exchange_contract_address = exchange_address a,
                  ec_signature_r = None, ec_signature_s = None, ec_signature_v = None\<rparr>"
  shows "(wad_value (if sell then buy_amt else pay_amt) \<noteq> 0 \<longrightarrow>
            (if sell then wad_div pay_amt buy_amt else wad_div buy_amt pay_amt) = Inr q \<and>
            fst (place_order a sell pay_tok pay_amt buy_tok buy_amt fee pr) = [req] \<and>
            (\<forall>resp x xs. requests_send a req = Inr resp \<and> resp_ok resp \<and>
                 resp_json resp = Some (JArr (x # xs)) \<longrightarrow>
               snd (place_order a sell pay_tok pay_amt buy_tok buy_amt fee pr) = Inr x)) \<and>
         (wad_value (if sell then buy_amt else pay_amt) = 0 \<longrightarrow>
            place_order a sell pay_tok pay_amt buy_tok buy_amt fee pr =
              ([], Inl ArithmeticError))"
  using place_order_sent [OF _ q req zrx]
        place_order_zero_divisor [of sell buy_amt pay_amt a pay_tok buy_tok fee pr]
  by blast

theorem place_order_payload_witness:
  "place_order (sample_api (answering (JArr [JInt 99, JStr ''ACTIVE''])))
      True ''0xpay'' (Wad 2000000000000000000) ''0xbuy'' (Wad 4000000000000000000)
      ''0xfee'' ''ZRXETH'' =
     ([\<lparr>req_method = ''POST'', req_url = ''https://test.ethfinex.com/trustless/v1/w/on'',
        req_json = Some (JObj
          [(''type'', JStr ''EXCHANGE LIMIT''),
           (''symbol'', JStr ''tZRXETH''),
           (''amount'', JStr ''4000000000000000000e-18''),
           (''price'', JStr ''500000000000000000e-18''),
           (''meta'', JObj [(''maker'', JStr ''0xmaker''), (''salt'', JInt 42)]),
           (''protocol'', JStr ''0x'')]),
        req_timeout = 19 / 2\<rparr>], Inr (JInt 99))"
proof -
  let ?a = "sample_api (answering (JArr [JInt 99, JStr ''ACTIVE'']))"
  let ?q = "Wad 500000000000000000"
  let ?zrx = "\<lparr>exchange = ''0xexchange'', maker = ''0xmaker'', taker = ''0xfee'',
                  maker_fee = Wad 0, taker_fee = Wad 0,
                  pay_token = ''0xpay'', pay_amount = Wad 2000000000000000000,
                  buy_token = ''0xbuy'', buy_amount = Wad 4000000000000000000,
                  salt = 42, fee_recipient = ''0xfee'',
                  expiration = 1546322400,
                  exchange_contract_address = ''0xexchange'',
                  ec_signature_r = None, ec_signature_s = None, ec_signature_v = None\<rparr>"
  let ?req = "\<lparr>req_method = ''POST'', req_url = ''https://test.ethfinex.com/trustless/v1/w/on'',
        req_json = Some (JObj
          [(''type'', JStr ''EXCHANGE LIMIT''),
           (''symbol'', JStr ''tZRXETH''),
           (''amount'', JStr ''4000000000000000000e-18''),
           (''price'', JStr ''500000000000000000e-18''),
           (''meta'', JObj [(''maker'', JStr ''0xmaker''), (''salt'', JInt 42)]),
           (''protocol'', JStr ''0x'')]),
        req_timeout = 19 / 2\<rparr>"
  have s1: "str_int 4000000000000000000 = ''4000000000000000000''"
    by (simp add: str_int_def str_nat.simps)
  have s2: "str_int 500000000000000000 = ''500000000000000000''"
    by (simp add: str_int_def str_nat.simps)
  have q: "?q = Wad (if True then tdiv (wad_value (Wad 2000000000000000000) * WAD)
                                   (wad_value (Wad 4000000000000000000))
                     else tdiv (wad_value (Wad 4000000000000000000) * WAD)
                               (wad_value (Wad 2000000000000000000)))"
    by (simp add: tdiv_def WAD_def)
  have m: "wad_mul ?q (Wad 4000000000000000000) = Wad 2000000000000000000"
    by (simp add: wad_mul_def tdiv_def WAD_def)
  have zrx: "?zrx = \<lparr>exchange = exchange_address ?a, maker = default_account ?a, taker = ''0xfee'',
                  maker_fee = Wad 0, taker_fee = Wad 0,
                  pay_token = ''0xpay'',
                  pay_amount = (if True then wad_mul ?q (Wad 4000000000000000000)
                                else Wad 2000000000000000000),
                  buy_token = ''0xbuy'',
                  buy_amount = (if True then Wad 4000000000000000000
                                else wad_mul ?q (Wad 2000000000000000000)),
                  salt = next_salt ?a, fee_recipient = ''0xfee'',
                  expiration = expiration_time ?a,
                  exchange_contract_address = exchange_address ?a,
                  ec_signature_r = None, ec_signature_s = None, ec_signature_v = None\<rparr>"
    by (simp add: sample_api_def m)
  have req: "?req = \<lparr>req_method = ''POST'', req_url = api_server ?a @ ''/trustless/v1/w/on'',
                  req_json = Some (JObj
                    [(''type'', JStr ''EXCHANGE LIMIT''),
                     (''symbol'', JStr (''t'' @ ''ZRXETH'')),
                     (''amount'', JStr (if True then str_wad ?a (Wad 4000000000000000000)
                                        else ''-'' @ str_wad ?a (Wad 2000000000000000000))),
                     (''price'', JStr (str_wad ?a ?q)),
                     (''meta'', order_to_json ?a (sign_order ?a ?zrx)),
                     (''protocol'', JStr ''0x'')]),
                  req_timeout = timeout ?a\<rparr>"
    by (simp add: sample_api_def s1 s2)
  have nz: "wad_value (if True then Wad 4000000000000000000 else Wad 2000000000000000000) \<noteq> 0"
    by simp
  have ans: "requests_send ?a ?req =
               Inr \<lparr>resp_ok = True, resp_text = ''body'',
                    resp_json = Some (JArr [JInt 99, JStr ''ACTIVE''])\<rparr>"
    by (simp add: sample_api_def answering_def)
  from place_order_payload [OF q req zrx] nz ans
  have "fst (place_order ?a True ''0xpay'' (Wad 2000000000000000000) ''0xbuy''
               (Wad 4000000000000000000) ''0xfee'' ''ZRXETH'') = [?req]"
   and "snd (place_order ?a True ''0xpay'' (Wad 2000000000000000000) ''0xbuy''
               (Wad 4000000000000000000) ''0xfee'' ''ZRXETH'') = Inr (JInt 99)"
    by simp_all
  then show ?thesis
    by (simp add: prod_eq_iff)
qed

subsection \<open>Cancelling an order\<close>

text \<open>
  C4 (as amended): \<^verbatim>\<open>cancel_order\<close> sends one POST request to the cancellation endpoint.
  When the answer is a success whose JSON is an array with a first element, it returns
  whether that element equals the order identifier in the sense of Python (a float by
  its exact value, \<^verbatim>\<open>True\<close> and \<^verbatim>\<open>False\<close> as 1 and 0), \<^verbatim>\<open>False\<close> on a mismatch; it raises
  the exception of the transport, the invalid-HTTP and the invalid-JSON exception, and
  also an index, key or type error when the parsed answer has no element 0.
\<close>

theorem cancel_order_outcomes:
  assumes req: "req = \<lparr>req_method = ''POST'', req_url = api_server a @ ''/trustless/v1/w/oc'',
                  req_json = Some (JObj [(''orderId'', JStr (str_int oid)),
                                         (''protocol'', JStr ''0x''),
                                         (''signature'', JStr (eth_sign a (str_int oid)))]),
                  req_timeout = timeout a\<rparr>"
  shows "fst (cancel_order a oid) = [req] \<and>
         (\<forall>e. requests_send a req = Inl e \<longrightarrow> snd (cancel_order a oid) = Inl e) \<and>
         (\<forall>resp. requests_send a req = Inr resp \<and> \<not> resp_ok resp \<longrightarrow>
            snd (cancel_order a oid) =
              Inl (PyException (''Ethfinex API invalid HTTP response: '' @
                                http_response_summary a resp))) \<and>
         (\<forall>resp. requests_send a req = Inr resp \<and> resp_ok resp \<and> resp_json resp = None \<longrightarrow>
            snd (cancel_order a oid) =
              Inl (PyException (''Ethfinex API invalid JSON response: '' @
                                http_response_summary a resp))) \<and>
         (\<forall>resp j. requests_send a req = Inr resp \<and> resp_ok resp \<and> resp_json resp = Some j \<longrightarrow>
            (\<forall>x xs. j = JArr (x # xs) \<longrightarrow>
               snd (cancel_order a oid) =
                 Inr (py_eq_int (float_value (conversions a)) x oid)) \<and>
            (\<forall>m xs. j = JArr (JInt m # xs) \<longrightarrow> snd (cancel_order a oid) = Inr (m = oid)) \<and>
            (\<forall>q xs. j = JArr (JFloat q # xs) \<longrightarrow>
               snd (cancel_order a oid) = Inr (float_value (conversions a) q = of_int oid)) \<and>
            (\<forall>c cs. j = JStr (c # cs) \<longrightarrow> snd (cancel_order a oid) = Inr False) \<and>
            (j = JArr [] \<or> j = JStr [] \<longrightarrow> snd (cancel_order a oid) = Inl IndexError) \<and>
            (\<forall>kvs. j = JObj kvs \<longrightarrow> snd (cancel_order a oid) = Inl KeyError) \<and>
            (j = JNull \<or> (\<exists>b. j = JBool b) \<or> (\<exists>n. j = JInt n) \<or> (\<exists>x. j = JFloat x) \<longrightarrow>
               snd (cancel_order a oid) = Inl TypeError))"
proof -
  note post = cancel_order_post [OF req]
  have sent: "fst (cancel_order a oid) = [req]"
    unfolding post by simp
  have transport: "snd (cancel_order a oid) = Inl e" if "requests_send a req = Inl e" for e
    unfolding post using that by (simp add: and_then_def)
  have status: "snd (cancel_order a oid) =
      Inl (PyException (''Ethfinex API invalid HTTP response: '' @ http_response_summary a resp))"
    if "requests_send a req = Inr resp \<and> \<not> resp_ok resp" for resp
    unfolding post using that by (simp add: and_then_def http_result_def)
  have parse: "snd (cancel_order a oid) =
      Inl (PyException (''Ethfinex API invalid JSON response: '' @ http_response_summary a resp))"
    if "requests_send a req = Inr resp \<and> resp_ok resp \<and> resp_json resp = None" for resp
    unfolding post using that by (simp add: and_then_def http_result_def)
  have parsed: "snd (cancel_order a oid) =
          and_then (getitem0 j) (\<lambda>first. Inr (py_eq_int (float_value (conversions a)) first oid))"
    if "requests_send a req = Inr resp \<and> resp_ok resp \<and> resp_json resp = Some j" for resp j
    unfolding post using that by (simp add: and_then_def http_result_def)
  have cases: "(\<forall>x xs. j = JArr (x # xs) \<longrightarrow>
               snd (cancel_order a oid) =
                 Inr (py_eq_int (float_value (conversions a)) x oid)) \<and>
            (\<forall>m xs. j = JArr (JInt m # xs) \<longrightarrow> snd (cancel_order a oid) = Inr (m = oid)) \<and>
            (\<forall>q xs. j = JArr (JFloat q # xs) \<longrightarrow>
               snd (cancel_order a oid) = Inr (float_value (conversions a) q = of_int oid)) \<and>
            (\<forall>c cs. j = JStr (c # cs) \<longrightarrow> snd (cancel_order a oid) = Inr False) \<and>
            (j = JArr [] \<or> j = JStr [] \<longrightarrow> snd (cancel_order a oid) = Inl IndexError) \<and>
            (\<forall>kvs. j = JObj kvs \<longrightarrow> snd (cancel_order a oid) = Inl KeyError) \<and>
            (j = JNull \<or> (\<exists>b. j = JBool b) \<or> (\<exists>n. j = JInt n) \<or> (\<exists>x. j = JFloat x) \<longrightarrow>
               snd (cancel_order a oid) = Inl TypeError)"
    if "requests_send a req = Inr resp \<and> resp_ok resp \<and> resp_json resp = Some j" for resp j
    unfolding parsed [OF that] by (auto simp: and_then_def)
  from sent transport status parse cases show ?thesis
    by blast
qed

theorem cancel_order_outcomes_witness:
  "snd (cancel_order (sample_api (answering (JArr [JInt 42, JStr ''info'']))) 42) = Inr True \<and>
   snd (cancel_order (sample_api (answering (JArr [JInt 43, JStr ''info'']))) 42) = Inr False \<and>
   snd (cancel_order (sample_api (\<lambda>req. Inl TransportError)) 42) = Inl TransportError \<and>
   snd (cancel_order (sample_api (answering (JArr [JFloat 42]))) 42) = Inr True \<and>
   snd (cancel_order (sample_api (answering (JArr [JFloat 100000000000000000000000])))
          100000000000000000000000) = Inr False \<and>
   snd (cancel_order (sample_api (answering (JArr [JFloat 100000000000000000000000])))
          99999999999999991611392) = Inr True"
proof -
  let ?req = "\<lparr>req_method = ''POST'', req_url = ''https://test.ethfinex.com/trustless/v1/w/oc'',
        req_json = Some (JObj [(''orderId'', JStr ''42''), (''protocol'', JStr ''0x''),
                               (''signature'', JStr ''0xsigned:42'')]),
        req_timeout = 19 / 2\<rparr>"
  have s: "str_int 42 = ''42''"
    by (simp add: str_int_def str_nat.simps)
  have small:
    "snd (cancel_order (sample_api (answering (JArr [JInt 42, JStr ''info'']))) 42) = Inr True \<and>
     snd (cancel_order (sample_api (answering (JArr [JInt 43, JStr ''info'']))) 42) = Inr False \<and>
     snd (cancel_order (sample_api (\<lambda>req. Inl TransportError)) 42) = Inl TransportError \<and>
     snd (cancel_order (sample_api (answering (JArr [JFloat 42]))) 42) = Inr True"
    using cancel_order_outcomes
            [of ?req "sample_api (answering (JArr [JInt 42, JStr ''info'']))" 42]
          cancel_order_outcomes
            [of ?req "sample_api (answering (JArr [JInt 43, JStr ''info'']))" 42]
          cancel_order_outcomes
            [of ?req "sample_api (\<lambda>req. Inl TransportError)" 42]
          cancel_order_outcomes
            [of ?req "sample_api (answering (JArr [JFloat 42]))" 42]
    by (simp add: sample_api_def sample_conv_def answering_def s)
  have large:
    "snd (cancel_order (sample_api (answering (JArr [JFloat 100000000000000000000000])))
            100000000000000000000000) = Inr False \<and>
     snd (cancel_order (sample_api (answering (JArr [JFloat 100000000000000000000000])))
            99999999999999991611392) = Inr True"
    using cancel_order_outcomes
            [OF refl, of "sample_api (answering (JArr [JFloat 100000000000000000000000]))"
                100000000000000000000000]
          cancel_order_outcomes
            [OF refl, of "sample_api (answering (JArr [JFloat 100000000000000000000000]))"
                99999999999999991611392]
    by (simp add: sample_api_def sample_conv_def answering_def)
  from small large show ?thesis by blast
qed

text \<open>
  C4 as stated fails: the answer \<^verbatim>\<open>[]\<close> is a success and parses as JSON, and
  \<^verbatim>\<open>cancel_order\<close> raises an index error.
\<close>

theorem cancel_order_empty_answer:
  "answering (JArr [])
     \<lparr>req_method = ''POST'', req_url = ''https://test.ethfinex.com/trustless/v1/w/oc'',
      req_json = Some (JObj [(''orderId'', JStr ''42''), (''protocol'', JStr ''0x''),
                             (''signature'', JStr ''0xsigned:42'')]),
      req_timeout = 19 / 2\<rparr> =
     Inr \<lparr>resp_ok = True, resp_text = ''body'', resp_json = Some (JArr [])\<rparr> \<and>
   cancel_order (sample_api (answering (JArr []))) 42 =
     ([\<lparr>req_method = ''POST'', req_url = ''https://test.ethfinex.com/trustless/v1/w/oc'',
        req_json = Some (JObj [(''orderId'', JStr ''42''), (''protocol'', JStr ''0x''),
                               (''signature'', JStr ''0xsigned:42'')]),
        req_timeout = 19 / 2\<rparr>], Inl IndexError)"
  by (simp add: cancel_order_def cancel_order_data_def http_post_def Let_def sample_api_def
      answering_def and_then_def http_result_def str_int_def str_nat.simps)

end
